theory Spec2Isabelle
  imports Main "HOL-Library.Word"
begin

section \<open>Package validation: limits\<close>

text \<open>
  The constants of \<^verbatim>\<open>internal/validation\<close>. Go strings are byte sequences, so a Go
  \<^verbatim>\<open>string\<close> is a \<^typ>\<open>string\<close> here (a list of 8-bit characters) and \<^verbatim>\<open>len\<close> is
  \<^const>\<open>length\<close>.
\<close>

definition MaxStringLength :: nat where
  "MaxStringLength = 10000"

definition MaxStderrLines :: nat where
  "MaxStderrLines = 1000"

definition MaxStderrLineLength :: nat where
  "MaxStderrLineLength = 1000"

definition MaxJSONSize :: nat where
  "MaxJSONSize = 10 * 1024 * 1024"

section \<open>Options and its accessors\<close>

text \<open>
  \<^verbatim>\<open>Options\<close> with the fields the transport and \<^verbatim>\<open>Query\<close> read. Go's \<^verbatim>\<open>int\<close> is the
  64-bit signed integer of the usual platforms and \<^verbatim>\<open>time.Duration\<close> is an \<^verbatim>\<open>int64\<close>
  count of nanoseconds: both are \<^typ>\<open>64 word\<close>, read with \<^const>\<open>sint\<close>. A
  \<^verbatim>\<open>*Options\<close> is an \<^typ>\<open>'a option\<close>, \<^const>\<open>None\<close> being the nil pointer.
\<close>

record Options =
  Cwd :: string
  MessageBufferSize :: "64 word"
  ErrorBufferSize :: "64 word"
  QueryTimeout :: "64 word"

definition NewOptions :: Options where
  "NewOptions = \<lparr>Cwd = [], MessageBufferSize = 10, ErrorBufferSize = 1, QueryTimeout = 0\<rparr>"

definition Second :: "64 word" where
  "Second = 1000000000"

definition GetCwd :: "Options option \<Rightarrow> string" where
  "GetCwd opts = (case opts of None \<Rightarrow> [] | Some x \<Rightarrow> Cwd x)"

definition GetMessageBufferSize :: "Options option \<Rightarrow> 64 word" where
  "GetMessageBufferSize opts =
     (case opts of None \<Rightarrow> 10
      | Some x \<Rightarrow> if sint (MessageBufferSize x) \<le> 0 then 10 else MessageBufferSize x)"

definition GetErrorBufferSize :: "Options option \<Rightarrow> 64 word" where
  "GetErrorBufferSize opts =
     (case opts of None \<Rightarrow> 1
      | Some x \<Rightarrow> if sint (ErrorBufferSize x) \<le> 0 then 1 else ErrorBufferSize x)"

definition GetQueryTimeout :: "Options option \<Rightarrow> 64 word" where
  "GetQueryTimeout opts =
     (case opts of None \<Rightarrow> 0
      | Some x \<Rightarrow> if sint (QueryTimeout x) \<le> 0 then 0 else QueryTimeout x * Second)"

section \<open>Strings\<close>

text \<open>
  The functions of package \<^verbatim>\<open>strings\<close> that the transport calls, on byte strings.
\<close>

fun HasPrefix :: "string \<Rightarrow> string \<Rightarrow> bool" where
  "HasPrefix s [] = True"
| "HasPrefix [] (p # ps) = False"
| "HasPrefix (c # cs) (p # ps) = (c = p \<and> HasPrefix cs ps)"

definition HasSuffix :: "string \<Rightarrow> string \<Rightarrow> bool" where
  "HasSuffix s p = HasPrefix (rev s) (rev p)"

fun Contains :: "string \<Rightarrow> string \<Rightarrow> bool" where
  "Contains [] sub = (sub = [])"
| "Contains (c # cs) sub = (HasPrefix (c # cs) sub \<or> Contains cs sub)"

fun Join :: "string list \<Rightarrow> string \<Rightarrow> string" where
  "Join [] sep = []"
| "Join [l] sep = l"
| "Join (l # m # ls) sep = l @ sep @ Join (m # ls) sep"

text \<open>
  \<^verbatim>\<open>strings.ToLower\<close> on the ASCII letters. A byte from \<^verbatim>\<open>0x80\<close> on is kept: the
  lower-case mapping of a rune outside ASCII never yields one of the letters of
  \<^verbatim>\<open>"error"\<close>, the only text the transport looks for in a lowered string.
\<close>

definition toLowerByte :: "char \<Rightarrow> char" where
  "toLowerByte c =
     (if 65 \<le> (of_char c :: nat) \<and> (of_char c :: nat) \<le> 90
      then char_of ((of_char c :: nat) + 32) else c)"

definition ToLower :: "string \<Rightarrow> string" where
  "ToLower s = map toLowerByte s"

text \<open>
  \<^verbatim>\<open>strings.TrimSpace\<close> removes the leading and the trailing white-space runes of the
  UTF-8 text: the six ASCII ones and the encodings of U+0085, U+00A0, U+1680,
  U+2000 to U+200A, U+2028, U+2029, U+202F, U+205F and U+3000. A byte that starts no
  such encoding ends the trimming on its side.
\<close>

definition asciiSpace :: "char \<Rightarrow> bool" where
  "asciiSpace c \<longleftrightarrow>
     c = CHR 0x09 \<or> c = CHR 0x0A \<or> c = CHR 0x0B \<or> c = CHR 0x0C \<or> c = CHR 0x0D \<or> c = CHR 0x20"

definition spaceRunes :: "string list" where
  "spaceRunes =
     [[CHR 0xC2, CHR 0x85], [CHR 0xC2, CHR 0xA0], [CHR 0xE1, CHR 0x9A, CHR 0x80],
      [CHR 0xE2, CHR 0x80, CHR 0x80], [CHR 0xE2, CHR 0x80, CHR 0x81],
      [CHR 0xE2, CHR 0x80, CHR 0x82], [CHR 0xE2, CHR 0x80, CHR 0x83],
      [CHR 0xE2, CHR 0x80, CHR 0x84], [CHR 0xE2, CHR 0x80, CHR 0x85],
      [CHR 0xE2, CHR 0x80, CHR 0x86], [CHR 0xE2, CHR 0x80, CHR 0x87],
      [CHR 0xE2, CHR 0x80, CHR 0x88], [CHR 0xE2, CHR 0x80, CHR 0x89],
      [CHR 0xE2, CHR 0x80, CHR 0x8A], [CHR 0xE2, CHR 0x80, CHR 0xA8],
      [CHR 0xE2, CHR 0x80, CHR 0xA9], [CHR 0xE2, CHR 0x80, CHR 0xAF],
      [CHR 0xE2, CHR 0x81, CHR 0x9F], [CHR 0xE3, CHR 0x80, CHR 0x80]]"

definition leadingSpace :: "string \<Rightarrow> nat" where
  "leadingSpace s =
     (case s of [] \<Rightarrow> 0
      | c # cs \<Rightarrow>
          if asciiSpace c then 1
          else (case find (HasPrefix s) spaceRunes of None \<Rightarrow> 0 | Some p \<Rightarrow> length p))"

definition trailingSpace :: "string \<Rightarrow> nat" where
  "trailingSpace s =
     (case rev s of [] \<Rightarrow> 0
      | c # cs \<Rightarrow>
          if asciiSpace c then 1
          else (case find (HasSuffix s) spaceRunes of None \<Rightarrow> 0 | Some p \<Rightarrow> length p))"

function TrimLeftSpace :: "string \<Rightarrow> string" where
  "TrimLeftSpace s =
     (if leadingSpace s = 0 then s else TrimLeftSpace (drop (leadingSpace s) s))"
  by pat_completeness auto
termination
  by (relation "measure length") (auto simp: leadingSpace_def split: list.splits)

declare TrimLeftSpace.simps [simp del]

function TrimRightSpace :: "string \<Rightarrow> string" where
  "TrimRightSpace s =
     (if trailingSpace s = 0 then s
      else TrimRightSpace (take (length s - trailingSpace s) s))"
  by pat_completeness auto
termination
  by (relation "measure length") (auto simp: trailingSpace_def split: list.splits)

declare TrimRightSpace.simps [simp del]

definition TrimSpace :: "string \<Rightarrow> string" where
  "TrimSpace s = TrimRightSpace (TrimLeftSpace s)"

text \<open>Decimal text of an integer, as \<^verbatim>\<open>%d\<close> prints it.\<close>

function show_nat :: "nat \<Rightarrow> string" where
  "show_nat n =
     (if n < 10 then [''0123456789'' ! n]
      else show_nat (n div 10) @ [''0123456789'' ! (n mod 10)])"
  by pat_completeness auto
termination
  by (relation "measure id") auto

declare show_nat.simps [simp del]

definition show_int :: "int \<Rightarrow> string" where
  "show_int i = (if i < 0 then CHR ''-'' # show_nat (nat (- i)) else show_nat (nat i))"

section \<open>Package errors\<close>

text \<open>
  The error values that travel on the error channel. \<^verbatim>\<open>GoError\<close> stands for an error
  made by \<^verbatim>\<open>fmt.Errorf\<close> or returned by the standard library, known by its text.
\<close>

datatype error =
    CLIConnectionError string
  | CLINotFoundError string string
  | ProcessError string "int option" string
  | CLIJSONDecodeError string string error
  | GoError string

definition NewCLINotFoundError :: "string \<Rightarrow> string \<Rightarrow> error" where
  "NewCLINotFoundError message cliPath =
     CLINotFoundError (if cliPath \<noteq> [] then message @ '': '' @ cliPath else message) cliPath"

definition NewProcessError :: "string \<Rightarrow> int option \<Rightarrow> string \<Rightarrow> error" where
  "NewProcessError message exitCode stderr =
     (let m1 = (case exitCode of None \<Rightarrow> message
                | Some c \<Rightarrow> message @ '' (exit code: '' @ show_int c @ '')'');
          m2 = (if stderr \<noteq> [] then m1 @ [CHR 0x0A] @ ''Error output: '' @ stderr else m1)
      in ProcessError m2 exitCode stderr)"

definition NewCLIJSONDecodeError :: "string \<Rightarrow> error \<Rightarrow> error" where
  "NewCLIJSONDecodeError line originalError =
     (let truncated = (if length line > 100 then take 100 line @ ''...'' else line)
      in CLIJSONDecodeError (''Failed to decode JSON: '' @ truncated) line originalError)"


fun Stderr :: "error \<Rightarrow> string option" where
  "Stderr (ProcessError m c s) = Some s"
| "Stderr _ = None"

fun isCLIJSONDecodeError :: "error \<Rightarrow> bool" where
  "isCLIJSONDecodeError (CLIJSONDecodeError m l e) = True"
| "isCLIJSONDecodeError _ = False"

fun isProcessError :: "error \<Rightarrow> bool" where
  "isProcessError (ProcessError m c s) = True"
| "isProcessError _ = False"

text \<open>The method \<^verbatim>\<open>Error()\<close>: the message, and for a decode error also its cause.\<close>

fun Error :: "error \<Rightarrow> string" where
  "Error (CLIConnectionError m) = m"
| "Error (CLINotFoundError m p) = m"
| "Error (ProcessError m c s) = m"
| "Error (CLIJSONDecodeError m l e) = m @ '': '' @ Error e"
| "Error (GoError m) = m"

section \<open>Package validation: TruncateError\<close>

text \<open>
  \<^verbatim>\<open>TruncateError\<close> replaces every match of the pattern
  \<^verbatim>\<open>(/[^\s]+|[A-Za-z]:\\[^\s]+)\<close> by \<^verbatim>\<open>[path]\<close>, from left to right, and then cuts the
  text at \<^verbatim>\<open>maxLength\<close> bytes. The class \<^verbatim>\<open>\s\<close> of Go's regular expressions is tab,
  line feed, form feed, carriage return and space; every other byte is in \<^verbatim>\<open>[^\s]\<close>,
  and \<^verbatim>\<open>+\<close> takes the longest run.
\<close>

definition reSpace :: "char \<Rightarrow> bool" where
  "reSpace c \<longleftrightarrow> c = CHR 0x09 \<or> c = CHR 0x0A \<or> c = CHR 0x0C \<or> c = CHR 0x0D \<or> c = CHR 0x20"

definition asciiLetter :: "char \<Rightarrow> bool" where
  "asciiLetter c \<longleftrightarrow>
     (65 \<le> (of_char c :: nat) \<and> (of_char c :: nat) \<le> 90) \<or>
     (97 \<le> (of_char c :: nat) \<and> (of_char c :: nat) \<le> 122)"

definition unixPathAt :: "string \<Rightarrow> bool" where
  "unixPathAt s = (case s of a # b # _ \<Rightarrow> a = CHR ''/'' \<and> \<not> reSpace b | _ \<Rightarrow> False)"

definition drivePathAt :: "string \<Rightarrow> bool" where
  "drivePathAt s =
     (case s of a # b # c # d # _ \<Rightarrow>
        asciiLetter a \<and> b = CHR '':'' \<and> c = CHR 0x5C \<and> \<not> reSpace d
      | _ \<Rightarrow> False)"

function replacePaths :: "string \<Rightarrow> string" where
  "replacePaths [] = []"
| "replacePaths (c # cs) =
     (if unixPathAt (c # cs)
      then ''[path]'' @ replacePaths (dropWhile (\<lambda>x. \<not> reSpace x) cs)
      else if drivePathAt (c # cs)
      then ''[path]'' @ replacePaths (dropWhile (\<lambda>x. \<not> reSpace x) (drop 2 cs))
      else c # replacePaths cs)"
  by pat_completeness auto
termination
proof (relation "measure length")
  show "wf (measure length)" by simp
next
  fix c :: char and cs :: string
  have "length (dropWhile (\<lambda>x. \<not> reSpace x) cs) \<le> length cs"
    by (rule length_dropWhile_le)
  then show "(dropWhile (\<lambda>x. \<not> reSpace x) cs, c # cs) \<in> measure length" by simp
next
  fix c :: char and cs :: string
  have "length (dropWhile (\<lambda>x. \<not> reSpace x) (drop 2 cs)) \<le> length (drop 2 cs)"
    by (rule length_dropWhile_le)
  then show "(dropWhile (\<lambda>x. \<not> reSpace x) (drop 2 cs), c # cs) \<in> measure length" by simp
next
  fix c :: char and cs :: string
  show "(cs, c # cs) \<in> measure length" by simp
qed

definition TruncateError :: "error option \<Rightarrow> nat \<Rightarrow> string" where
  "TruncateError err maxLength =
     (case err of None \<Rightarrow> []
      | Some e \<Rightarrow>
          (let msg = replacePaths (Error e)
           in if length msg > maxLength then take maxLength msg @ ''...'' else msg))"

section \<open>Reading a pipe line by line\<close>

text \<open>
  A pipe is the bytes the subprocess writes to it and the way the stream ends: at end
  of file (\<^const>\<open>None\<close>) or with a read error.
\<close>

record pipe =
  written :: string
  failure :: "string option"

text \<open>
  \<^verbatim>\<open>bufio.Scanner\<close> with \<^verbatim>\<open>ScanLines\<close> and \<^verbatim>\<open>Buffer(buf, max)\<close>. The stream is cut at each
  line feed; bytes after the last line feed form a last line when there are any. A token
  is a line without its line feed and without one trailing carriage return. The buffer
  never grows beyond \<^verbatim>\<open>max\<close> bytes, so a line of \<^verbatim>\<open>max\<close> bytes or more before its line
  feed fills the buffer without a token: scanning stops there with \<^verbatim>\<open>ErrTooLong\<close>.
  Otherwise \<^verbatim>\<open>Err()\<close> is the read error of the stream, nil at end of file.
\<close>

fun splitLines :: "string \<Rightarrow> string \<Rightarrow> string list" where
  "splitLines cur [] = (if cur = [] then [] else [rev cur])"
| "splitLines cur (c # cs) =
     (if c = CHR 0x0A then rev cur # splitLines [] cs else splitLines (c # cur) cs)"

definition dropCR :: "string \<Rightarrow> string" where
  "dropCR l = (if l \<noteq> [] \<and> last l = CHR 0x0D then butlast l else l)"

fun scanTokens :: "nat \<Rightarrow> string list \<Rightarrow> string list \<times> bool" where
  "scanTokens mx [] = ([], False)"
| "scanTokens mx (l # ls) =
     (if length l \<ge> mx then ([], True)
      else (case scanTokens mx ls of (ts, tooLong) \<Rightarrow> (dropCR l # ts, tooLong)))"

definition ErrTooLong :: error where
  "ErrTooLong = GoError ''bufio.Scanner: token too long''"

definition Scanner :: "nat \<Rightarrow> pipe \<Rightarrow> string list \<times> error option" where
  "Scanner mx p =
     (case scanTokens mx (splitLines [] (written p)) of
        (ts, tooLong) \<Rightarrow>
          (ts, if tooLong then Some ErrTooLong else map_option GoError (failure p)))"

section \<open>The stderr collector\<close>

text \<open>
  The body of the goroutine of \<^verbatim>\<open>collectStderr\<close>: one step per scanned line, on the
  lines collected so far.
\<close>

definition collectLine :: "string list \<Rightarrow> string \<Rightarrow> string list" where
  "collectLine stderrLines l =
     (let line = (if length l > MaxStderrLineLength
                  then take MaxStderrLineLength l @ ''...'' else l)
      in if length stderrLines < MaxStderrLines then stderrLines @ [line]
         else if length stderrLines = MaxStderrLines
         then stderrLines @ [''[stderr truncated - too many lines]'']
         else stderrLines)"

definition collectLoop :: "string list \<Rightarrow> string list" where
  "collectLoop tokens = foldl collectLine [] tokens"

text \<open>
  \<^verbatim>\<open>collectStderr\<close> starts the goroutine and returns the slice \<^verbatim>\<open>stderrLines\<close> by value,
  together with the channel that is closed when the goroutine ends. The caller's slice
  is the one of the moment of the return statement: it holds the lines the goroutine
  had appended by then, \<open>started\<close> of them, and later appends do not reach it. The
  return statement directly follows the \<^verbatim>\<open>go\<close> statement, so \<open>started\<close> is 0 unless the
  new goroutine overtakes its parent. The second component is what the goroutine holds
  when it ends.
\<close>

definition collectStderr :: "nat \<Rightarrow> pipe \<Rightarrow> string list \<times> string list" where
  "collectStderr started p =
     (let collected = collectLoop (fst (Scanner MaxJSONSize p))
      in (take started collected, collected))"

text \<open>
  The bound the collector keeps on its lines: at most \<^const>\<open>MaxStderrLines\<close> lines and
  the marker after them, none longer than \<^const>\<open>MaxStderrLineLength\<close> and the three
  bytes of the suffix.
\<close>

definition stderrBounded :: "string list \<Rightarrow> bool" where
  "stderrBounded ls \<longleftrightarrow>
     length ls \<le> MaxStderrLines + 1 \<and>
     (\<forall>l \<in> set ls. length l \<le> MaxStderrLineLength + 3) \<and>
     (\<forall>i < length ls. MaxStderrLines \<le> i \<longrightarrow> ls ! i = ''[stderr truncated - too many lines]'')"

section \<open>The transport\<close>

text \<open>
  What \<^verbatim>\<open>Wait\<close> reports for a process: exit status 0, an \<^verbatim>\<open>*exec.ExitError\<close> with its
  exit code, or another error.
\<close>

datatype wait_result = Exited0 | ExitError int | WaitFailed string

record process =
  exit_status :: wait_result

record cmd =
  Args :: "string list"
  Dir :: string
  Env :: "string list"
  Process :: "process option"

text \<open>
  \<^verbatim>\<open>SubprocessCLITransport\<close>. The field \<^verbatim>\<open>options\<close> is an \<^verbatim>\<open>interface{}\<close> that holds a
  \<^verbatim>\<open>*Options\<close>; a nil interface and a nil pointer are both \<^const>\<open>None\<close>, as every use
  gives the two the same result (no arguments, empty working directory, the default
  buffer sizes). The mutex is left out: each method below is one critical section.
\<close>

record transport =
  prompt :: string
  options :: "Options option"
  cliPath :: string
  cwd :: string
  cmd :: "cmd option"
  stdout :: "pipe option"
  stderr :: "pipe option"
  connected :: bool

definition IsConnected :: "transport \<Rightarrow> bool" where
  "IsConnected t \<longleftrightarrow>
     connected t \<and> cmd t \<noteq> None \<and> (case cmd t of None \<Rightarrow> False | Some c \<Rightarrow> Process c \<noteq> None)"

text \<open>
  \<^verbatim>\<open>NewSubprocessCLITransport\<close>; \<open>found\<close> is the answer of \<^verbatim>\<open>findCLI()\<close> and \<open>wd\<close>
  the one of \<^verbatim>\<open>os.Getwd()\<close>.
\<close>

definition NewSubprocessCLITransport ::
    "string \<Rightarrow> Options option \<Rightarrow> string \<Rightarrow> string \<Rightarrow> string \<Rightarrow> transport" where
  "NewSubprocessCLITransport p opts path found wd =
     \<lparr>prompt = p, options = opts,
      cliPath = (if path = [] then found else path),
      cwd = (if GetCwd opts = [] then wd else GetCwd opts),
      cmd = None, stdout = None, stderr = None, connected = False\<rparr>"

text \<open>
  The invariant of a session: a connected transport has its command, its process and
  both pipes; a transport that is not connected has no pipe.
\<close>

definition sessionInvariant :: "transport \<Rightarrow> bool" where
  "sessionInvariant t \<longleftrightarrow>
     (if connected t
      then (case cmd t of None \<Rightarrow> False | Some c \<Rightarrow> Process c \<noteq> None)
           \<and> stdout t \<noteq> None \<and> stderr t \<noteq> None
      else stdout t = None \<and> stderr t = None)"

definition Wait :: "cmd \<Rightarrow> wait_result" where
  "Wait c = (case Process c of None \<Rightarrow> WaitFailed ''exec: not started'' | Some p \<Rightarrow> exit_status p)"

subsection \<open>Channels and the context\<close>

text \<open>
  What the producer goroutine does to its two channels, in order: the trace of one
  receive cycle. A record of type \<open>'r\<close> is a decoded \<^verbatim>\<open>map[string]interface{}\<close>.
\<close>

datatype 'r event = MsgSend 'r | ErrSend error | CloseMsg | CloseErr

text \<open>
  The context is seen through the answers it gives: each time the goroutine looks at
  \<^verbatim>\<open>ctx.Done()\<close> the next answer says whether the cancellation branch is taken. When the
  answers run out the context is not cancelled. In a \<^verbatim>\<open>select\<close> between a send and
  \<^verbatim>\<open>ctx.Done()\<close> the answer \<^const>\<open>False\<close> is the send: it waits for room in the
  channel, which the consumer makes by receiving.
\<close>

type_synonym ctx = "bool list"

fun observe :: "ctx \<Rightarrow> bool \<times> ctx" where
  "observe [] = (False, [])"
| "observe (d # ds) = (d, ds)"

text \<open>
  \<^verbatim>\<open>ctx.Err()\<close> of a cancelled context. The callers only test it against nil.
\<close>

definition ctxErr :: error where
  "ctxErr = GoError ''context canceled''"

text \<open>
  The send \<^verbatim>\<open>ch <- v\<close> on a buffered channel of capacity \<open>cap\<close> whose buffer holds
  \<open>q\<close>, with no receiver waiting: \<^const>\<open>None\<close> when the buffer is full, where the send
  blocks.
\<close>

definition chanSend :: "nat \<Rightarrow> 'a list \<Rightarrow> 'a \<Rightarrow> 'a list option" where
  "chanSend cap q v = (if length q < cap then Some (q @ [v]) else None)"

subsection \<open>Decoding stdout\<close>

text \<open>
  \<^verbatim>\<open>json.Unmarshal\<close> into a \<^verbatim>\<open>map[string]interface{}\<close> is the parameter \<open>unmarshal\<close>: the
  parse error or the decoded record.
\<close>

definition processLine ::
    "ctx \<Rightarrow> (string \<Rightarrow> error + 'r) \<Rightarrow> string \<Rightarrow> 'r event list \<times> error option \<times> ctx" where
  "processLine ctx unmarshal line =
     (if length line > MaxJSONSize
      then ([ErrSend (NewCLIJSONDecodeError ''[JSON too large]''
                (GoError (''JSON exceeds maximum size of '' @ show_nat MaxJSONSize @ '' bytes'')))],
            Some (GoError ''JSON too large''), ctx)
      else (case unmarshal line of
              Inl err \<Rightarrow>
                if HasPrefix line ''{'' \<or> HasPrefix line ''[''
                then (let truncatedLine =
                            (if length line > 200 then take 200 line @ ''...'' else line)
                      in ([ErrSend (NewCLIJSONDecodeError truncatedLine err)], Some err, ctx))
                else ([], None, ctx)
            | Inr data \<Rightarrow>
                (case observe ctx of
                   (True, ctx') \<Rightarrow> ([], Some ctxErr, ctx')
                 | (False, ctx') \<Rightarrow> ([MsgSend data], None, ctx'))))"

text \<open>
  The loop of \<^verbatim>\<open>processStdout\<close> over the scanned tokens. The result is \<^const>\<open>None\<close>
  when the tokens run out, and the returned error (or nil) when the loop returns.
\<close>

fun stdoutLoop ::
    "ctx \<Rightarrow> (string \<Rightarrow> error + 'r) \<Rightarrow> string list \<Rightarrow> 'r event list \<times> error option option" where
  "stdoutLoop ctx unmarshal [] = ([], None)"
| "stdoutLoop ctx unmarshal (tok # toks) =
     (case observe ctx of
        (True, ctx1) \<Rightarrow> ([], Some None)
      | (False, ctx1) \<Rightarrow>
          (let line = TrimSpace tok
           in if line = [] then stdoutLoop ctx1 unmarshal toks
              else (case processLine ctx1 unmarshal line of
                      (ev, Some err, ctx2) \<Rightarrow> (ev, Some (Some err))
                    | (ev, None, ctx2) \<Rightarrow>
                        (case stdoutLoop ctx2 unmarshal toks of
                           (ev', r) \<Rightarrow> (ev @ ev', r)))))"

definition processStdout ::
    "ctx \<Rightarrow> (string \<Rightarrow> error + 'r) \<Rightarrow> pipe \<Rightarrow> 'r event list \<times> error option" where
  "processStdout ctx unmarshal p =
     (case Scanner MaxJSONSize p of
        (tokens, scanErr) \<Rightarrow>
          (case stdoutLoop ctx unmarshal tokens of
             (ev, Some r) \<Rightarrow> (ev, r)
           | (ev, None) \<Rightarrow>
               (case scanErr of
                  Some err \<Rightarrow>
                    (ev @ [ErrSend (CLIConnectionError ''Error reading stdout'')], Some err)
                | None \<Rightarrow> (ev, None))))"



subsection \<open>Process exit\<close>

text \<open>A call either completes or panics with a value, here the text of the panic.\<close>

datatype 'a outcome = Done 'a | Panic string

definition nilDereference :: string where
  "nilDereference = ''runtime error: invalid memory address or nil pointer dereference''"

definition handleProcessExit :: "transport \<Rightarrow> string list \<Rightarrow> 'r event list outcome" where
  "handleProcessExit t stderrLines =
     (case cmd t of
        None \<Rightarrow> Panic nilDereference
      | Some c \<Rightarrow>
          Done (case Wait c of
                  ExitError exitCode \<Rightarrow>
                    (let stderrOutput = Join stderrLines [CHR 0x0A]
                     in if stderrOutput \<noteq> [] \<and> Contains (ToLower stderrOutput) ''error''
                        then [ErrSend (NewProcessError ''CLI process failed'' (Some exitCode)
                                (TruncateError (Some (GoError stderrOutput)) 1000))]
                        else [])
                | _ \<Rightarrow> []))"

subsection \<open>ReceiveMessages\<close>

text \<open>
  The deferred function of the producer goroutine: a recovered panic is sent as an
  error, then both channels are closed.
\<close>

definition deferredClose :: "string option \<Rightarrow> 'r event list" where
  "deferredClose r =
     (case r of None \<Rightarrow> [] | Some v \<Rightarrow> [ErrSend (GoError (''panic in ReceiveMessages: '' @ v))])
     @ [CloseMsg, CloseErr]"

text \<open>
  The producer goroutine of a connected transport \<open>t\<close>. It reads \<^verbatim>\<open>t.stderr\<close> and
  \<^verbatim>\<open>t.stdout\<close> when it starts and \<^verbatim>\<open>t.cmd\<close> when it reaches \<^verbatim>\<open>handleProcessExit\<close>; the
  transport of that later moment is \<open>t_exit\<close>, which is \<open>t\<close> again unless
  \<^verbatim>\<open>Disconnect\<close> ran in between. A nil \<^verbatim>\<open>t.stdout\<close> panics in the goroutine, where the
  deferred function recovers it. A nil \<^verbatim>\<open>t.stderr\<close> panics in the collector goroutine,
  where nothing recovers it and the program ends: the result \<^const>\<open>None\<close>.
\<close>

definition receiveGoroutine ::
    "ctx \<Rightarrow> (string \<Rightarrow> error + 'r) \<Rightarrow> nat \<Rightarrow> transport \<Rightarrow> transport \<Rightarrow> 'r event list option" where
  "receiveGoroutine ctx unmarshal started t t_exit =
     (case stderr t of
        None \<Rightarrow> None
      | Some errPipe \<Rightarrow>
          (let stderrLines = fst (collectStderr started errPipe)
           in case stdout t of
                None \<Rightarrow> Some (deferredClose (Some nilDereference))
              | Some outPipe \<Rightarrow>
                  (case processStdout ctx unmarshal outPipe of
                     (ev, Some err) \<Rightarrow> Some (ev @ deferredClose None)
                   | (ev, None) \<Rightarrow>
                       (case handleProcessExit t_exit stderrLines of
                          Panic v \<Rightarrow> Some (ev @ deferredClose (Some v))
                        | Done ev' \<Rightarrow> Some (ev @ ev' @ deferredClose None)))))"

definition handleNotConnected :: "'r event list" where
  "handleNotConnected = [ErrSend (CLIConnectionError ''Not connected''), CloseMsg, CloseErr]"

text \<open>
  \<^verbatim>\<open>ReceiveMessages\<close>: the capacities of the two channels it makes and the trace of the
  goroutine that feeds them.
\<close>

definition ReceiveMessages ::
    "ctx \<Rightarrow> (string \<Rightarrow> error + 'r) \<Rightarrow> nat \<Rightarrow> transport \<Rightarrow> transport
       \<Rightarrow> 64 word \<times> 64 word \<times> 'r event list option" where
  "ReceiveMessages ctx unmarshal started t t_exit =
     (let msgBufSize = GetMessageBufferSize (options t);
          errBufSize = GetErrorBufferSize (options t)
      in (msgBufSize, errBufSize,
          if \<not> IsConnected t then Some handleNotConnected
          else receiveGoroutine ctx unmarshal started t t_exit))"

text \<open>Reading a trace.\<close>

fun sentRecords :: "'r event list \<Rightarrow> 'r list" where
  "sentRecords [] = []"
| "sentRecords (MsgSend r # es) = r # sentRecords es"
| "sentRecords (e # es) = sentRecords es"

fun sentErrors :: "'r event list \<Rightarrow> error list" where
  "sentErrors [] = []"
| "sentErrors (ErrSend x # es) = x # sentErrors es"
| "sentErrors (e # es) = sentErrors es"

fun isClose :: "'r event \<Rightarrow> bool" where
  "isClose CloseMsg = True"
| "isClose CloseErr = True"
| "isClose _ = False"

text \<open>
  The error sends of a trace, replayed on an empty error channel of capacity \<open>cap\<close>
  from which nobody receives: \<^const>\<open>None\<close> when one of the sends would block.
\<close>

fun replayErrors :: "nat \<Rightarrow> error list \<Rightarrow> error list \<Rightarrow> error list option" where
  "replayErrors cap q [] = Some q"
| "replayErrors cap q (x # xs) =
     (case chanSend cap q x of None \<Rightarrow> None | Some q' \<Rightarrow> replayErrors cap q' xs)"

subsection \<open>Connect and Disconnect\<close>

definition safeEnvPrefixes :: "string list" where
  "safeEnvPrefixes =
     [''CLAUDE_'', ''LANG'', ''LC_'', ''TZ'', ''TERM'', ''USER'', ''HOME'', ''PATH'',
      ''TMPDIR'', ''TEMP'', ''TMP'']"

definition blockedEnv :: "string list" where
  "blockedEnv =
     [''AWS_SECRET_ACCESS_KEY'', ''AWS_SESSION_TOKEN'', ''GITHUB_TOKEN'', ''NPM_TOKEN'',
      ''ANTHROPIC_API_KEY'']"

definition FilterEnvironment :: "string list \<Rightarrow> string list" where
  "FilterEnvironment env =
     filter (\<lambda>e. CHR ''='' \<in> set e \<and>
                 (let key = takeWhile (\<lambda>c. c \<noteq> CHR ''='') e
                  in key \<notin> set blockedEnv \<and> list_ex (HasPrefix key) safeEnvPrefixes)) env"

text \<open>
  What the operating system and the collaborators answer during \<^verbatim>\<open>Connect\<close>: whether
  \<^verbatim>\<open>node\<close> is on the path, the arguments built from the options, the validated working
  directory, the environment, the two pipes (\<^const>\<open>None\<close> when the pipe cannot be
  made) and the started process or the error of \<^verbatim>\<open>Start\<close>.
\<close>

record os_calls =
  nodeOnPath :: bool
  cliArgs :: "error + string list"
  validatedCwd :: "error + string"
  environ :: "string list"
  stdoutPipe :: "pipe option"
  stderrPipe :: "pipe option"
  startResult :: "error + process"

definition buildCommand :: "transport \<Rightarrow> os_calls \<Rightarrow> error + string list" where
  "buildCommand t os =
     (let base = [cliPath t, ''--output-format'', ''stream-json'', ''--verbose'']
      in case options t of
           None \<Rightarrow> Inr (base @ [''--print'', prompt t])
         | Some x \<Rightarrow>
             (case cliArgs os of
                Inl err \<Rightarrow> Inl (GoError (''failed to build CLI args: '' @ Error err))
              | Inr args \<Rightarrow> Inr (base @ args @ [''--print'', prompt t])))"

definition nodeMissing :: string where
  "nodeMissing =
     ''Claude Code requires Node.js, which is not installed.'' @ [CHR 0x0A, CHR 0x0A] @
     ''Install Node.js from: https://nodejs.org/'' @ [CHR 0x0A] @ [CHR 0x0A] @
     ''After installing Node.js, install Claude Code:'' @ [CHR 0x0A] @
     ''  npm install -g @anthropic-ai/claude-code''"

definition cliMissing :: string where
  "cliMissing =
     ''Claude Code not found. Install with:'' @ [CHR 0x0A] @
     ''  npm install -g @anthropic-ai/claude-code'' @ [CHR 0x0A] @ [CHR 0x0A] @
     ''If already installed locally, try:'' @ [CHR 0x0A] @
     ''  export PATH='' @ [CHR 0x22] @ ''$HOME/node_modules/.bin:$PATH'' @ [CHR 0x22, CHR 0x0A]
     @ [CHR 0x0A] @ ''Or specify the path when creating transport:'' @ [CHR 0x0A] @
     ''  NewSubprocessCLITransport(..., '' @ [CHR 0x22] @ ''/path/to/claude'' @ [CHR 0x22] @ '')''"

definition Connect :: "os_calls \<Rightarrow> transport \<Rightarrow> error option \<times> transport" where
  "Connect os t =
     (if connected t then (None, t)
      else if cliPath t = []
      then (if \<not> nodeOnPath os then (Some (NewCLINotFoundError nodeMissing []), t)
            else (Some (NewCLINotFoundError cliMissing []), t))
      else (case buildCommand t os of
              Inl err \<Rightarrow> (Some err, t)
            | Inr cmdArgs \<Rightarrow>
                (let c0 = \<lparr>Args = cmdArgs, Dir = [], Env = [], Process = None\<rparr>;
                     t0 = t\<lparr>cmd := Some c0\<rparr>
                 in case (if cwd t \<noteq> [] then validatedCwd os else Inr []) of
                      Inl err \<Rightarrow>
                        (Some (GoError (''invalid working directory: '' @ Error err)), t0)
                    | Inr dir \<Rightarrow>
                        (let c1 = c0\<lparr>Dir := dir,
                                   Env := FilterEnvironment (environ os)
                                            @ [''CLAUDE_CODE_ENTRYPOINT=sdk-go'']\<rparr>;
                             t1 = t\<lparr>cmd := Some c1\<rparr>
                         in case stdoutPipe os of
                              None \<Rightarrow>
                                (Some (CLIConnectionError ''Failed to create stdout pipe''),
                                 t1\<lparr>stdout := None\<rparr>)
                            | Some out \<Rightarrow>
                                (case stderrPipe os of
                                   None \<Rightarrow>
                                     (Some (CLIConnectionError ''Failed to create stderr pipe''),
                                      t1\<lparr>stdout := None, stderr := None\<rparr>)
                                 | Some err \<Rightarrow>
                                     (case startResult os of
                                        Inl e \<Rightarrow>
                                          (Some (if Contains (Error e) ''executable file not found''
                                                 then NewCLINotFoundError
                                                        (''Claude Code not found at: '' @ cliPath t)
                                                        (cliPath t)
                                                 else CLIConnectionError ''Failed to start Claude Code''),
                                           t1\<lparr>stdout := None, stderr := None\<rparr>)
                                      | Inr p \<Rightarrow>
                                          (None,
                                           t\<lparr>cmd := Some (c1\<lparr>Process := Some p\<rparr>),
                                             stdout := Some out, stderr := Some err,
                                             connected := True\<rparr>)))))))"

text \<open>
  \<^verbatim>\<open>Disconnect\<close>, with what it does to the process and the pipes. \<open>interrupted\<close> says
  that the interrupt signal could be sent, \<open>graceful\<close> that the process then ended
  within the five seconds.
\<close>

datatype action = Interrupt | Kill | WaitExit | CloseStdout | CloseStderr

definition Disconnect :: "bool \<Rightarrow> bool \<Rightarrow> transport \<Rightarrow> error option \<times> action list \<times> transport" where
  "Disconnect interrupted graceful t =
     (case cmd t of
        None \<Rightarrow> (None, [], t)
      | Some c \<Rightarrow>
          if \<not> connected t then (None, [], t)
          else (let stop = (case Process c of
                              None \<Rightarrow> []
                            | Some p \<Rightarrow>
                                if interrupted
                                then (if graceful then [Interrupt, WaitExit]
                                      else [Interrupt, Kill, WaitExit])
                                else [Interrupt, Kill, WaitExit]);
                    closeOut = (if stdout t \<noteq> None then [CloseStdout] else []);
                    closeErr = (if stderr t \<noteq> None then [CloseStderr] else [])
                in (None, stop @ closeOut @ closeErr,
                    t\<lparr>connected := False, cmd := None, stdout := None, stderr := None\<rparr>)))"

section \<open>Forwarding: ProcessQuery and Query\<close>

text \<open>
  The two channels a forwarding goroutine feeds, as they are when nobody receives from
  the error channel: the values sent on the message channel, the buffer of the error
  channel with the oldest error first, and whether each channel was closed.
\<close>

record 'm channels =
  msgCh :: "'m list"
  errCh :: "error list"
  msgChClosed :: bool
  errChClosed :: bool

text \<open>
  The \<^verbatim>\<open>select\<close> with which \<^verbatim>\<open>ProcessQuery\<close> and \<^verbatim>\<open>Query\<close> pass an error on to their own
  error channel, of capacity \<open>cap\<close> and with \<open>q\<close> in its buffer. \<open>cancelled\<close> says
  that the context is done at that moment; \<open>pick\<close> is the choice of the \<^verbatim>\<open>select\<close>
  when both the send and \<^verbatim>\<open>ctx.Done()\<close> are ready (\<^const>\<open>True\<close> for the latter). With
  neither ready the \<^verbatim>\<open>default\<close> branch receives the oldest queued error, if there is
  one, and then sends. The result is the buffer afterwards, \<^const>\<open>None\<close> when a send
  blocks.
\<close>

definition forwardError :: "nat \<Rightarrow> error list \<Rightarrow> bool \<Rightarrow> bool \<Rightarrow> error \<Rightarrow> error list option" where
  "forwardError cap q cancelled pick err =
     (if length q < cap
      then (if cancelled \<and> pick then Some q else chanSend cap q err)
      else if cancelled then Some q
      else (case q of [] \<Rightarrow> Some q | oldest # rest \<Rightarrow> chanSend cap rest err))"


text \<open>
  The loop of the two forwarding goroutines is the same; it is given by the case each
  round of its \<^verbatim>\<open>select\<close> takes, up to the round in which the loop returns. (The
  transport closes both of its channels on every path, so a list that stops before that
  round is completed by one that finds a channel closed.) A received value \<open>x\<close> is
  converted by \<open>conv\<close> (\<^verbatim>\<open>parseMessage\<close> in \<^verbatim>\<open>ProcessQuery\<close>, \<^verbatim>\<open>convertMessage\<close> in
  \<^verbatim>\<open>Query\<close>; \<^term>\<open>Done None\<close> is nil, and \<^term>\<open>Panic v\<close> a panic of the conversion) and
  sent on, unless that send is abandoned for \<^verbatim>\<open>ctx.Done()\<close>. The result is the messages
  sent, the buffer of the error channel (\<^const>\<open>None\<close> when a send blocks) and the value
  of the panic that ended the loop, if one did.
\<close>

datatype 'a received =
    GotMsg 'a bool
  | MsgClosed
  | GotErr "error option" bool bool
  | ErrClosed
  | CtxDone

fun forwardLoop ::
    "('a \<Rightarrow> 'm option outcome) \<Rightarrow> nat \<Rightarrow> error list \<Rightarrow> 'a received list
       \<Rightarrow> 'm list \<times> error list option \<times> string option" where
  "forwardLoop conv cap q [] = ([], Some q, None)"
| "forwardLoop conv cap q (GotMsg x abandoned # rs) =
     (case conv x of
        Panic v \<Rightarrow> ([], Some q, Some v)
      | Done None \<Rightarrow> forwardLoop conv cap q rs
      | Done (Some m) \<Rightarrow>
          if abandoned then ([], Some q, None)
          else (case forwardLoop conv cap q rs of (ms, q', r) \<Rightarrow> (m # ms, q', r)))"
| "forwardLoop conv cap q (MsgClosed # rs) = ([], Some q, None)"
| "forwardLoop conv cap q (GotErr None cancelled pick # rs) = forwardLoop conv cap q rs"
| "forwardLoop conv cap q (GotErr (Some err) cancelled pick # rs) =
     ([], forwardError cap q cancelled pick err, None)"
| "forwardLoop conv cap q (ErrClosed # rs) = ([], Some q, None)"
| "forwardLoop conv cap q (CtxDone # rs) = ([], Some q, None)"

text \<open>
  The deferred function of the goroutine of \<^verbatim>\<open>ProcessQuery\<close>, run with the messages
  \<open>ms\<close> sent and \<open>q\<close> in the error buffer: a recovered panic \<open>r\<close> is sent with a plain
  send, then both channels are closed. The result is \<^const>\<open>None\<close> when the send
  blocks; the channels are then never closed.
\<close>

definition deferredProcessQuery ::
    "nat \<Rightarrow> string option \<Rightarrow> 'm list \<Rightarrow> error list \<Rightarrow> 'm channels option" where
  "deferredProcessQuery cap r ms q =
     (case (case r of
              None \<Rightarrow> Some q
            | Some v \<Rightarrow> chanSend cap q (GoError (''panic in ProcessQuery: '' @ v))) of
        None \<Rightarrow> None
      | Some q' \<Rightarrow> Some \<lparr>msgCh = ms, errCh = q', msgChClosed = True, errChClosed = True\<rparr>)"

text \<open>
  The goroutine of \<^verbatim>\<open>ProcessQuery\<close> on its two new channels, the error channel of
  capacity \<open>cap\<close>. The error of a failed \<^verbatim>\<open>Connect\<close> is sent with a plain send and the
  goroutine returns. Otherwise \<^verbatim>\<open>Disconnect\<close> is deferred and the loop runs on the
  channels of \<^verbatim>\<open>ReceiveMessages\<close>, whose rounds are \<open>rs\<close>; when the loop returns or
  panics the deferred \<^verbatim>\<open>Disconnect\<close> runs first and the deferred function above after
  it. The result is the two channels at the end and the transport as it is left.
\<close>

definition ProcessQuery_goroutine ::
    "os_calls \<Rightarrow> string \<Rightarrow> string \<Rightarrow> bool \<Rightarrow> bool \<Rightarrow> ('a \<Rightarrow> 'm option outcome) \<Rightarrow> nat
       \<Rightarrow> string \<Rightarrow> Options option \<Rightarrow> 'a received list \<Rightarrow> 'm channels option \<times> transport" where
  "ProcessQuery_goroutine os found wd interrupted graceful parseMessage cap p opts rs =
     (let trans = NewSubprocessCLITransport p opts [] found wd
      in case Connect os trans of
           (Some err, trans1) \<Rightarrow>
             ((case chanSend cap [] err of
                 None \<Rightarrow> None
               | Some q \<Rightarrow> deferredProcessQuery cap None [] q), trans1)
         | (None, trans1) \<Rightarrow>
             (case forwardLoop parseMessage cap [] rs of
                (ms, buf, r) \<Rightarrow>
                  (let trans2 = snd (snd (Disconnect interrupted graceful trans1))
                   in ((case buf of
                          None \<Rightarrow> None
                        | Some q \<Rightarrow> deferredProcessQuery cap r ms q), trans2))))"

text \<open>
  \<^verbatim>\<open>ProcessQuery\<close>: the capacities of the two channels it makes and the run of the
  goroutine that feeds them.
\<close>

definition ProcessQuery ::
    "os_calls \<Rightarrow> string \<Rightarrow> string \<Rightarrow> bool \<Rightarrow> bool \<Rightarrow> ('a \<Rightarrow> 'm option outcome)
       \<Rightarrow> string \<Rightarrow> Options option \<Rightarrow> 'a received list
       \<Rightarrow> 64 word \<times> 64 word \<times> 'm channels option \<times> transport" where
  "ProcessQuery os found wd interrupted graceful parseMessage p opts rs =
     (let msgBufSize = GetMessageBufferSize opts;
          errBufSize = GetErrorBufferSize opts
      in (msgBufSize, errBufSize,
          ProcessQuery_goroutine os found wd interrupted graceful parseMessage (unat errBufSize)
            p opts rs))"



text \<open>
  \<^verbatim>\<open>Query\<close>: the timeout it puts on the context (\<^const>\<open>None\<close> when it puts none) and
  the capacities of the message channel and of the error channel it returns.
\<close>

definition Query :: "Options option \<Rightarrow> 64 word option \<times> 64 word \<times> 64 word" where
  "Query opts =
     (let options = (case opts of None \<Rightarrow> NewOptions | Some x \<Rightarrow> x);
          timeout = GetQueryTimeout (Some options)
      in (if 0 < sint timeout then Some timeout else None,
          GetMessageBufferSize (Some options), GetErrorBufferSize (Some options)))"

section \<open>Concrete runs\<close>

text \<open>
  The inputs at which the theorems below are evaluated. \<open>lineX\<close> is the line
  \<^verbatim>\<open>{"type":"x"}\<close>; \<open>unmarshalX\<close> decodes that one line to the record with the single
  field \<^verbatim>\<open>type\<close> and fails on every other line.
\<close>

definition longTimeout :: Options where
  "longTimeout = NewOptions\<lparr>QueryTimeout := 18446744074\<rparr>"

definition twoLines :: pipe where
  "twoLines = \<lparr>written = ''warn'' @ [CHR 0x0A] @ ''Error: boom'' @ [CHR 0x0A], failure = None\<rparr>"

definition lineX :: string where
  "lineX = [CHR ''{'', CHR 0x22] @ ''type'' @ [CHR 0x22, CHR '':'', CHR 0x22] @ ''x'' @ [CHR 0x22, CHR ''}'']"

definition unmarshalX :: "string \<Rightarrow> error + (string \<times> string) list" where
  "unmarshalX l =
     (if l = lineX then Inr [(''type'', ''x'')]
      else Inl (GoError ''invalid character''))"

text \<open>
  A transport that was never connected, and the one \<^verbatim>\<open>Connect\<close> makes of it when the
  subprocess writes \<open>lineX\<close> to stdout (\<open>stdoutX\<close>) and \<^verbatim>\<open>Error: boom\<close> to stderr
  (\<open>stderrBoom\<close>) and exits with code 1.
\<close>

definition stdoutX :: pipe where
  "stdoutX = \<lparr>written = lineX @ [CHR 0x0A], failure = None\<rparr>"

definition stderrBoom :: pipe where
  "stderrBoom = \<lparr>written = ''Error: boom'' @ [CHR 0x0A], failure = None\<rparr>"

definition idle :: transport where
  "idle = NewSubprocessCLITransport ''hi'' None ''/usr/bin/claude'' [] ''/tmp''"

definition boomOS :: os_calls where
  "boomOS =
     \<lparr>nodeOnPath = True, cliArgs = Inr [], validatedCwd = Inr ''/tmp'',
      environ = [''HOME=/root'', ''SECRET=1''],
      stdoutPipe = Some stdoutX, stderrPipe = Some stderrBoom,
      startResult = Inr \<lparr>exit_status = ExitError 1\<rparr>\<rparr>"

definition boomRun :: transport where
  "boomRun = snd (Connect boomOS idle)"

text \<open>The same start when \<^verbatim>\<open>Start\<close> fails.\<close>

definition failedOS :: os_calls where
  "failedOS = boomOS\<lparr>startResult := Inl (GoError ''fork/exec /usr/bin/claude: permission denied'')\<rparr>"

definition failedStart :: transport where
  "failedStart = snd (Connect failedOS idle)"

text \<open>The connected transport after a \<^verbatim>\<open>Disconnect\<close> that ended the process gracefully.\<close>

definition afterDisconnect :: transport where
  "afterDisconnect = snd (snd (Disconnect True True boomRun))"

text \<open>A stdout of one line of \<^const>\<open>MaxJSONSize\<close> + 1 bytes, and two malformed lines.\<close>

definition oversized :: pipe where
  "oversized = \<lparr>written = replicate (MaxJSONSize + 1) (CHR ''a'') @ [CHR 0x0A], failure = None\<rparr>"





section \<open>Properties of the accessors\<close>

lemma GetMessageBufferSize_nil: "GetMessageBufferSize None = 10"
  by (simp add: GetMessageBufferSize_def)

lemma GetErrorBufferSize_nil: "GetErrorBufferSize None = 1"
  by (simp add: GetErrorBufferSize_def)

lemma GetQueryTimeout_nil: "GetQueryTimeout None = 0"
  by (simp add: GetQueryTimeout_def)

lemma GetMessageBufferSize_positive: "0 < sint (GetMessageBufferSize opts)"
  by (cases opts) (simp_all add: GetMessageBufferSize_def)

lemma GetErrorBufferSize_positive: "0 < sint (GetErrorBufferSize opts)"
  by (cases opts) (simp_all add: GetErrorBufferSize_def)

lemma GetErrorBufferSize_unat: "1 \<le> unat (GetErrorBufferSize opts)"
proof -
  have "GetErrorBufferSize opts \<noteq> 0"
    using GetErrorBufferSize_positive [of opts] by auto
  then show ?thesis by (simp add: Suc_le_eq unat_gt_0)
qed

lemma sint_Second: "sint Second = 1000000000"
  by (simp add: Second_def)

lemma GetQueryTimeout_nonpositive:
  "sint (QueryTimeout x) \<le> 0 \<Longrightarrow> GetQueryTimeout (Some x) = 0"
  by (simp add: GetQueryTimeout_def)

lemma GetQueryTimeout_in_range:
  assumes "0 < sint (QueryTimeout x)" and "sint (QueryTimeout x) \<le> 9223372036"
  shows "sint (GetQueryTimeout (Some x)) = sint (QueryTimeout x) * 1000000000"
proof -
  let ?q = "QueryTimeout x"
  have "sint (?q * Second) = signed_take_bit (LENGTH(64) - 1) (sint ?q * sint Second)"
    by (rule sint_word_mult)
  also have "\<dots> = sint ?q * 1000000000"
    using assms by (simp add: sint_Second signed_take_bit_int_eq_self)
  finally show ?thesis using assms by (simp add: GetQueryTimeout_def)
qed


text \<open>
  Claim C10. The accessors are total on a nil receiver and give the defaults 10 and 1 and
  no timeout for values that are not positive, and \<^verbatim>\<open>Query\<close> makes its channels with
  these capacities (the lemmas above). A positive \<^verbatim>\<open>QueryTimeout\<close> is meant to give
  that many seconds, but the product with \<^verbatim>\<open>time.Second\<close> is taken in 64 bits and wraps
  from 9223372037 seconds on. For \<^verbatim>\<open>QueryTimeout = 18446744074\<close> the accessor returns
  290448384 nanoseconds, and \<^verbatim>\<open>Query\<close> sets that timeout of 0.29 seconds.
\<close>

theorem GetQueryTimeout_wraps:
  "sint (QueryTimeout longTimeout) = 18446744074 \<and>
   sint (GetQueryTimeout (Some longTimeout)) = 290448384 \<and>
   sint (GetQueryTimeout (Some longTimeout)) \<noteq> sint (QueryTimeout longTimeout) * 1000000000 \<and>
   Query (Some longTimeout) = (Some 290448384, 10, 1)"
  by (simp add: longTimeout_def Query_def GetQueryTimeout_def NewOptions_def Second_def
      GetMessageBufferSize_def GetErrorBufferSize_def)

section \<open>The stderr collector is bounded\<close>

lemma collectLine_bounded:
  assumes "stderrBounded ls"
  shows "stderrBounded (collectLine ls l)"
proof -
  let ?line = "if length l > MaxStderrLineLength then take MaxStderrLineLength l @ ''...'' else l"
  have len: "length ?line \<le> MaxStderrLineLength + 3" by simp
  have marker: "length ''[stderr truncated - too many lines]'' \<le> MaxStderrLineLength + 3"
    by (simp add: MaxStderrLineLength_def)
  consider (room) "length ls < MaxStderrLines" | (full) "length ls = MaxStderrLines"
    | (over) "length ls > MaxStderrLines"
    by linarith
  then show ?thesis
  proof cases
    case room
    then have "collectLine ls l = ls @ [?line]"
      by (simp add: collectLine_def Let_def)
    moreover have "stderrBounded (ls @ [?line])"
      using assms room len unfolding stderrBounded_def by (auto simp: nth_append)
    ultimately show ?thesis by simp
  next
    case full
    then have "collectLine ls l = ls @ [''[stderr truncated - too many lines]'']"
      by (simp add: collectLine_def Let_def)
    moreover have "stderrBounded (ls @ [''[stderr truncated - too many lines]''])"
      using assms full marker unfolding stderrBounded_def by (auto simp: nth_append)
    ultimately show ?thesis by simp
  next
    case over
    then have "collectLine ls l = ls"
      by (simp add: collectLine_def Let_def)
    then show ?thesis using assms by simp
  qed
qed

lemma foldl_collectLine_bounded:
  "stderrBounded acc \<Longrightarrow> stderrBounded (foldl collectLine acc toks)"
  by (induction toks arbitrary: acc) (simp_all add: collectLine_bounded)

lemma collectLoop_bounded: "stderrBounded (collectLoop toks)"
  unfolding collectLoop_def by (rule foldl_collectLine_bounded) (simp add: stderrBounded_def)

text \<open>
  Claim C9. Whatever the subprocess writes to stderr, the lines the collector goroutine
  holds when it ends are at most 1001: at most 1000 lines of content, and from index 1000
  on only the marker line \<^verbatim>\<open>[stderr truncated - too many lines]\<close>. No line is longer
  than 1000 bytes and the three bytes of the suffix \<^verbatim>\<open>...\<close>.
\<close>

theorem collectStderr_bounded:
  "length (snd (collectStderr started p)) \<le> MaxStderrLines + 1 \<and>
   MaxStderrLines = 1000 \<and> MaxStderrLineLength = 1000 \<and>
   (\<forall>l \<in> set (snd (collectStderr started p)). length l \<le> MaxStderrLineLength + 3) \<and>
   (\<forall>i < length (snd (collectStderr started p)). MaxStderrLines \<le> i \<longrightarrow>
      snd (collectStderr started p) ! i = ''[stderr truncated - too many lines]'')"
  using collectLoop_bounded [of "fst (Scanner MaxJSONSize p)"]
  by (simp add: collectStderr_def stderrBounded_def Let_def MaxStderrLines_def
      MaxStderrLineLength_def)

lemma collectStderr_twoLines:
  "snd (collectStderr 0 twoLines) = [''warn'', ''Error: boom'']"
  by (simp add: collectStderr_def twoLines_def Scanner_def collectLoop_def collectLine_def
      MaxJSONSize_def dropCR_def MaxStderrLines_def MaxStderrLineLength_def)

theorem collectStderr_bounded_witness:
  "snd (collectStderr 0 twoLines) = [''warn'', ''Error: boom''] \<and>
   length (snd (collectStderr 0 twoLines)) \<le> MaxStderrLines + 1 \<and>
   length ''warn'' \<le> MaxStderrLineLength + 3 \<and>
   length ''Error: boom'' \<le> MaxStderrLineLength + 3"
  using collectStderr_bounded [of 0 twoLines] collectStderr_twoLines by simp

section \<open>The concrete runs, evaluated\<close>

lemma TrimSpace_lineX: "TrimSpace lineX = lineX"
  by code_simp

lemma lineX_fits: "\<not> MaxJSONSize < length lineX"
  by (simp add: lineX_def MaxJSONSize_def)

lemma lineX_nonempty: "lineX \<noteq> []"
  by (simp add: lineX_def)

lemma idle_eval:
  "idle = \<lparr>prompt = ''hi'', options = None, cliPath = ''/usr/bin/claude'', cwd = ''/tmp'',
            cmd = None, stdout = None, stderr = None, connected = False\<rparr>"
  by (simp add: idle_def NewSubprocessCLITransport_def GetCwd_def)

lemma boomRun_eval:
  "boomRun =
     \<lparr>prompt = ''hi'', options = None, cliPath = ''/usr/bin/claude'', cwd = ''/tmp'',
      cmd = Some \<lparr>Args = [''/usr/bin/claude'', ''--output-format'', ''stream-json'',
                          ''--verbose'', ''--print'', ''hi''],
                  Dir = ''/tmp'', Env = [''HOME=/root'', ''CLAUDE_CODE_ENTRYPOINT=sdk-go''],
                  Process = Some \<lparr>exit_status = ExitError 1\<rparr>\<rparr>,
      stdout = Some stdoutX, stderr = Some stderrBoom, connected = True\<rparr>"
  by (simp add: boomRun_def Connect_def idle_eval boomOS_def buildCommand_def
      FilterEnvironment_def blockedEnv_def safeEnvPrefixes_def Let_def)

lemma failedStart_eval:
  "failedStart =
     \<lparr>prompt = ''hi'', options = None, cliPath = ''/usr/bin/claude'', cwd = ''/tmp'',
      cmd = Some \<lparr>Args = [''/usr/bin/claude'', ''--output-format'', ''stream-json'',
                          ''--verbose'', ''--print'', ''hi''],
                  Dir = ''/tmp'', Env = [''HOME=/root'', ''CLAUDE_CODE_ENTRYPOINT=sdk-go''],
                  Process = None\<rparr>,
      stdout = None, stderr = None, connected = False\<rparr>"
  by (simp add: failedStart_def failedOS_def Connect_def idle_eval boomOS_def buildCommand_def
      FilterEnvironment_def blockedEnv_def safeEnvPrefixes_def Let_def)

lemma Scanner_lineX:
  "Scanner MaxJSONSize stdoutX = ([lineX], None)"
  by (simp add: Scanner_def stdoutX_def lineX_def MaxJSONSize_def dropCR_def)

lemma processStdout_lineX:
  "processStdout [] unmarshalX stdoutX = ([MsgSend [(''type'', ''x'')]], None)"
  by (simp add: processStdout_def Scanner_lineX TrimSpace_lineX processLine_def lineX_fits
      lineX_nonempty unmarshalX_def)

lemma collectStderr_boom:
  "collectStderr started stderrBoom = (take started [''Error: boom''], [''Error: boom''])"
  by (simp add: collectStderr_def stderrBoom_def Scanner_def collectLoop_def collectLine_def
      MaxJSONSize_def dropCR_def MaxStderrLines_def MaxStderrLineLength_def Let_def)

text \<open>
  Claim C1. The subprocess writes \<^verbatim>\<open>{"type":"x"}\<close> to stdout and \<^verbatim>\<open>Error: boom\<close> to
  stderr and exits with code 1. The collector goroutine does collect the line
  \<^verbatim>\<open>Error: boom\<close>, but \<^verbatim>\<open>collectStderr\<close> has returned its slice before (\<open>started = 0\<close>),
  so \<^verbatim>\<open>handleProcessExit\<close> joins an empty slice and sends nothing: the cycle delivers
  the one record and closes both channels without any error.
\<close>

theorem ReceiveMessages_boom_no_error:
  "ReceiveMessages [] unmarshalX 0 boomRun boomRun
     = (10, 1, Some [MsgSend [(''type'', ''x'')], CloseMsg, CloseErr]) \<and>
   stdout boomRun = Some stdoutX \<and> stderr boomRun = Some stderrBoom \<and>
   map_option Wait (cmd boomRun) = Some (ExitError 1) \<and>
   collectStderr 0 stderrBoom = ([], [''Error: boom''])"
  by (simp add: ReceiveMessages_def boomRun_eval IsConnected_def GetMessageBufferSize_def
      GetErrorBufferSize_def receiveGoroutine_def processStdout_lineX collectStderr_boom
      handleProcessExit_def Wait_def deferredClose_def Let_def)

section \<open>The session invariant\<close>

lemma sessionInvariant_New: "sessionInvariant (NewSubprocessCLITransport p opts path found wd)"
  by (simp add: sessionInvariant_def NewSubprocessCLITransport_def)

lemma sessionInvariant_Connect:
  assumes "sessionInvariant t"
  shows "sessionInvariant (snd (Connect os t))"
  using assms
  by (auto simp: Connect_def sessionInvariant_def Let_def split: sum.splits option.splits)

lemma sessionInvariant_Disconnect:
  assumes "sessionInvariant t"
  shows "sessionInvariant (snd (snd (Disconnect interrupted graceful t)))"
  using assms
  by (auto simp: Disconnect_def sessionInvariant_def Let_def split: option.splits)

lemma sessionInvariant_IsConnected:
  "sessionInvariant t \<Longrightarrow> IsConnected t = connected t"
  by (auto simp: sessionInvariant_def IsConnected_def split: option.splits if_splits)

lemma Connect_connected:
  "fst (Connect os t) = None \<Longrightarrow> connected (snd (Connect os t))"
  by (auto simp: Connect_def Let_def split: sum.splits option.splits if_splits)

section \<open>The two channels are closed together, once\<close>

lemma processLine_no_close:
  "processLine ctx unmarshal line = (ev, r, ctx') \<Longrightarrow> \<not> list_ex isClose ev"
  by (auto simp: processLine_def Let_def split: if_splits sum.splits prod.splits bool.splits)

lemma stdoutLoop_no_close:
  "stdoutLoop ctx unmarshal toks = (ev, r) \<Longrightarrow> \<not> list_ex isClose ev"
proof (induction toks arbitrary: ctx ev r)
  case Nil
  then show ?case by simp
next
  case (Cons tok toks)
  obtain d ctx1 where o: "observe ctx = (d, ctx1)" by (cases "observe ctx")
  show ?case
  proof (cases d)
    case True
    with Cons.prems o show ?thesis by simp
  next
    case False
    show ?thesis
    proof (cases "TrimSpace tok = []")
      case True
      with Cons.prems o False have "stdoutLoop ctx1 unmarshal toks = (ev, r)" by simp
      then show ?thesis by (rule Cons.IH)
    next
      case nonblank: False
      obtain ev1 r1 ctx2 where p: "processLine ctx1 unmarshal (TrimSpace tok) = (ev1, r1, ctx2)"
        by (cases "processLine ctx1 unmarshal (TrimSpace tok)") auto
      have nc1: "\<not> list_ex isClose ev1" using p by (rule processLine_no_close)
      show ?thesis
      proof (cases r1)
        case (Some err)
        with Cons.prems o False nonblank p have "ev = ev1" by simp
        with nc1 show ?thesis by simp
      next
        case None
        obtain ev2 r2 where l: "stdoutLoop ctx2 unmarshal toks = (ev2, r2)"
          by (cases "stdoutLoop ctx2 unmarshal toks")
        have "\<not> list_ex isClose ev2" using l by (rule Cons.IH)
        moreover from Cons.prems o False nonblank p None l have "ev = ev1 @ ev2" by simp
        ultimately show ?thesis using nc1 by simp
      qed
    qed
  qed
qed

lemma processStdout_no_close:
  "processStdout ctx unmarshal p = (ev, r) \<Longrightarrow> \<not> list_ex isClose ev"
  unfolding processStdout_def
  by (auto split: prod.splits option.splits dest: stdoutLoop_no_close)

lemma handleProcessExit_no_close:
  "handleProcessExit t ls = Done ev \<Longrightarrow> \<not> list_ex isClose ev"
  by (auto simp: handleProcessExit_def Let_def split: option.splits wait_result.splits if_splits)

lemma handleProcessExit_panics:
  "cmd t = None \<Longrightarrow> handleProcessExit t ls = Panic nilDereference"
  by (simp add: handleProcessExit_def)

lemma receiveGoroutine_shape:
  assumes "receiveGoroutine ctx unmarshal started t t_exit = Some tr"
  shows "\<exists>pre. tr = pre @ [CloseMsg, CloseErr] \<and> \<not> list_ex isClose pre"
proof -
  from assms obtain errPipe where e: "stderr t = Some errPipe"
    by (auto simp: receiveGoroutine_def split: option.splits)
  show ?thesis
  proof (cases "stdout t")
    case None
    with assms e have "tr = [ErrSend (GoError (''panic in ReceiveMessages: '' @ nilDereference))]
        @ [CloseMsg, CloseErr]"
      by (simp add: receiveGoroutine_def deferredClose_def Let_def)
    then show ?thesis by (intro exI conjI, assumption) simp
  next
    case (Some outPipe)
    obtain ev r where p: "processStdout ctx unmarshal outPipe = (ev, r)"
      by (cases "processStdout ctx unmarshal outPipe")
    have nc: "\<not> list_ex isClose ev" using p by (rule processStdout_no_close)
    show ?thesis
    proof (cases r)
      case (Some err)
      with assms e \<open>stdout t = Some outPipe\<close> p have "tr = ev @ [CloseMsg, CloseErr]"
        by (simp add: receiveGoroutine_def deferredClose_def Let_def)
      then show ?thesis using nc by blast
    next
      case None
      show ?thesis
      proof (cases "handleProcessExit t_exit (fst (collectStderr started errPipe))
                      :: 'a event list outcome")
        case (Done ev')
        with assms e \<open>stdout t = Some outPipe\<close> p None
        have "tr = (ev @ ev') @ [CloseMsg, CloseErr]"
          by (simp add: receiveGoroutine_def deferredClose_def Let_def)
        moreover have "\<not> list_ex isClose ev'" using Done by (rule handleProcessExit_no_close)
        then have "\<not> list_ex isClose (ev @ ev')" using nc by simp
        ultimately show ?thesis by blast
      next
        case (Panic v)
        with assms e \<open>stdout t = Some outPipe\<close> p None
        have "tr = (ev @ [ErrSend (GoError (''panic in ReceiveMessages: '' @ v))])
                     @ [CloseMsg, CloseErr]"
          by (simp add: receiveGoroutine_def deferredClose_def Let_def)
        moreover have "\<not> list_ex isClose (ev @ [ErrSend (GoError (''panic in ReceiveMessages: '' @ v))])"
          using nc by simp
        ultimately show ?thesis by blast
      qed
    qed
  qed
qed

lemma receiveGoroutine_defined:
  "stderr t \<noteq> None \<Longrightarrow> receiveGoroutine ctx unmarshal started t t_exit \<noteq> None"
  by (auto simp: receiveGoroutine_def Let_def split: option.splits prod.splits outcome.splits)

lemma receiveGoroutine_panic:
  assumes "stderr t = Some errPipe" and "stdout t = Some outPipe"
    and "processStdout ctx unmarshal outPipe = (ev, None)" and "cmd t_exit = None"
  shows "receiveGoroutine ctx unmarshal started t t_exit
           = Some (ev @ [ErrSend (GoError (''panic in ReceiveMessages: '' @ nilDereference)),
                         CloseMsg, CloseErr])"
  using assms
  by (simp add: receiveGoroutine_def handleProcessExit_panics deferredClose_def Let_def)

text \<open>
  Claim C3. For a transport that satisfies the session invariant, every receive cycle has
  a trace, and the trace ends with the close of the record channel directly followed by
  the close of the error channel; nothing before them is a close. So each channel is
  closed exactly once and one is closed if and only if the other is. This covers the
  goroutine of a transport that is not connected and every way the producer goroutine
  ends: end of stdout, a decode failure, a read error, a cancelled context, and a panic.
  When \<^verbatim>\<open>t.cmd\<close> is nil by the time of \<^verbatim>\<open>handleProcessExit\<close> (a \<^verbatim>\<open>Disconnect\<close> ran in
  between) the nil dereference is recovered and sent as the last error before the two
  closes.
\<close>

theorem channels_closed_once:
  assumes "sessionInvariant t"
  shows "(\<exists>pre. snd (snd (ReceiveMessages ctx unmarshal started t t_exit))
                  = Some (pre @ [CloseMsg, CloseErr]) \<and> \<not> list_ex isClose pre) \<and>
         (\<forall>outPipe ev. IsConnected t \<and> stdout t = Some outPipe \<and>
             processStdout ctx unmarshal outPipe = (ev, None) \<and> cmd t_exit = None \<longrightarrow>
             snd (snd (ReceiveMessages ctx unmarshal started t t_exit))
               = Some (ev @ [ErrSend (GoError (''panic in ReceiveMessages: '' @ nilDereference)),
                             CloseMsg, CloseErr]))"
proof (intro conjI allI impI)
  show "\<exists>pre. snd (snd (ReceiveMessages ctx unmarshal started t t_exit))
                = Some (pre @ [CloseMsg, CloseErr]) \<and> \<not> list_ex isClose pre"
  proof (cases "IsConnected t")
    case False
    then have "snd (snd (ReceiveMessages ctx unmarshal started t t_exit))
        = Some ([ErrSend (CLIConnectionError ''Not connected'')] @ [CloseMsg, CloseErr])"
      by (simp add: ReceiveMessages_def handleNotConnected_def Let_def)
    then show ?thesis by (intro exI conjI, assumption) simp
  next
    case True
    then have "connected t" by (simp add: IsConnected_def)
    with assms have "stderr t \<noteq> None" by (simp add: sessionInvariant_def)
    then obtain tr where tr: "receiveGoroutine ctx unmarshal started t t_exit = Some tr"
      using receiveGoroutine_defined [of t ctx unmarshal started t_exit] by auto
    then obtain pre where "tr = pre @ [CloseMsg, CloseErr]" and "\<not> list_ex isClose pre"
      using receiveGoroutine_shape by blast
    moreover have "snd (snd (ReceiveMessages ctx unmarshal started t t_exit)) = Some tr"
      using True tr by (simp add: ReceiveMessages_def Let_def)
    ultimately show ?thesis by blast
  qed
next
  fix outPipe :: pipe and ev :: "'a event list"
  assume h: "IsConnected t \<and> stdout t = Some outPipe \<and>
     processStdout ctx unmarshal outPipe = (ev, None) \<and> cmd t_exit = None"
  then have "connected t" by (simp add: IsConnected_def)
  with assms obtain errPipe where e: "stderr t = Some errPipe"
    by (auto simp: sessionInvariant_def)
  from h have o: "stdout t = Some outPipe"
    and p: "processStdout ctx unmarshal outPipe = (ev, None)" and c: "cmd t_exit = None"
    by simp_all
  have "receiveGoroutine ctx unmarshal started t t_exit
      = Some (ev @ [ErrSend (GoError (''panic in ReceiveMessages: '' @ nilDereference)),
                    CloseMsg, CloseErr])"
    using e o p c by (rule receiveGoroutine_panic)
  with h show "snd (snd (ReceiveMessages ctx unmarshal started t t_exit))
      = Some (ev @ [ErrSend (GoError (''panic in ReceiveMessages: '' @ nilDereference)),
                    CloseMsg, CloseErr])"
    by (simp add: ReceiveMessages_def Let_def)
qed

lemma sessionInvariant_boomRun: "sessionInvariant boomRun"
  by (simp add: boomRun_eval sessionInvariant_def)

lemma IsConnected_boomRun: "IsConnected boomRun"
  by (simp add: boomRun_eval IsConnected_def)

lemma afterDisconnect_eval:
  "afterDisconnect =
     \<lparr>prompt = ''hi'', options = None, cliPath = ''/usr/bin/claude'', cwd = ''/tmp'',
      cmd = None, stdout = None, stderr = None, connected = False\<rparr>"
  by (simp add: afterDisconnect_def Disconnect_def boomRun_eval Let_def)

theorem channels_closed_once_witness:
  "sessionInvariant boomRun \<and> IsConnected boomRun \<and> stdout boomRun = Some stdoutX \<and>
   processStdout [] unmarshalX stdoutX = ([MsgSend [(''type'', ''x'')]], None) \<and>
   cmd afterDisconnect = None \<and>
   snd (snd (ReceiveMessages [] unmarshalX 0 boomRun afterDisconnect))
     = Some ([MsgSend [(''type'', ''x'')]]
             @ [ErrSend (GoError (''panic in ReceiveMessages: '' @ nilDereference)),
                CloseMsg, CloseErr]) \<and>
   (\<exists>pre. snd (snd (ReceiveMessages [] unmarshalX 0 boomRun afterDisconnect))
            = Some (pre @ [CloseMsg, CloseErr]) \<and> \<not> list_ex isClose pre)"
proof -
  have a: "sessionInvariant boomRun" by (rule sessionInvariant_boomRun)
  have b: "IsConnected boomRun \<and> stdout boomRun = Some stdoutX \<and>
     processStdout [] unmarshalX stdoutX = ([MsgSend [(''type'', ''x'')]], None) \<and>
     cmd afterDisconnect = None"
    by (simp add: IsConnected_boomRun processStdout_lineX afterDisconnect_eval)
       (simp add: boomRun_eval)
  from channels_closed_once [OF a, of "[]" unmarshalX 0 afterDisconnect] a b
  show ?thesis by blast
qed

text \<open>
  Claim C8. When the transport is not connected, \<^verbatim>\<open>ReceiveMessages\<close> returns two channels
  whose producer sends the one connection error with the message \<^verbatim>\<open>Not connected\<close> and
  then closes the record channel and the error channel. No record is sent, and the error
  channel has room for the error: its capacity is at least one.
\<close>

theorem ReceiveMessages_not_connected:
  assumes "\<not> IsConnected t"
  shows "snd (snd (ReceiveMessages ctx unmarshal started t t_exit))
           = Some [ErrSend (CLIConnectionError ''Not connected''), CloseMsg, CloseErr] \<and>
         sentRecords [ErrSend (CLIConnectionError ''Not connected''), CloseMsg, CloseErr
                      :: 'a event] = [] \<and>
         replayErrors (unat (fst (snd (ReceiveMessages ctx unmarshal started t t_exit)))) []
             (sentErrors [ErrSend (CLIConnectionError ''Not connected''), CloseMsg, CloseErr
                          :: 'a event])
           = Some [CLIConnectionError ''Not connected'']"
proof -
  have cap: "0 < unat (GetErrorBufferSize (options t))"
    using GetErrorBufferSize_unat [of "options t"] by simp
  show ?thesis
    using assms cap
    by (simp add: ReceiveMessages_def handleNotConnected_def Let_def chanSend_def)
qed

theorem ReceiveMessages_not_connected_witness:
  "\<not> IsConnected idle \<and>
   ReceiveMessages [] unmarshalX 0 idle idle
     = (10, 1, Some [ErrSend (CLIConnectionError ''Not connected''), CloseMsg, CloseErr])"
proof -
  have n: "\<not> IsConnected idle" by (simp add: idle_eval IsConnected_def)
  have c: "fst (ReceiveMessages [] unmarshalX 0 idle idle) = 10 \<and>
           fst (snd (ReceiveMessages [] unmarshalX 0 idle idle)) = 1"
    by (simp add: ReceiveMessages_def idle_eval GetMessageBufferSize_def GetErrorBufferSize_def
        Let_def)
  from ReceiveMessages_not_connected [OF n, of "[]" unmarshalX 0 idle] n c
  show ?thesis by (metis prod.collapse)
qed

section \<open>Disconnect\<close>

lemma Disconnect_connected:
  assumes "connected t" and "cmd t = Some c"
  shows "snd (snd (Disconnect interrupted graceful t))
           = t\<lparr>connected := False, cmd := None, stdout := None, stderr := None\<rparr>"
  using assms by (simp add: Disconnect_def Let_def)

lemma Disconnect_not_connected:
  assumes "\<not> connected t \<or> cmd t = None"
  shows "Disconnect interrupted graceful t = (None, [], t)"
  using assms by (auto simp: Disconnect_def Let_def split: option.splits)

lemma Disconnect_no_error: "fst (Disconnect interrupted graceful t) = None"
  by (simp add: Disconnect_def Let_def split: option.splits)

lemma Disconnect_not_IsConnected:
  "\<not> IsConnected (snd (snd (Disconnect interrupted graceful t)))"
  by (auto simp: Disconnect_def IsConnected_def Let_def split: option.splits)

text \<open>
  Claim C7, as the code has it. \<^verbatim>\<open>Disconnect\<close> never returns an error and leaves
  \<^verbatim>\<open>IsConnected\<close> false, and a second call in a row changes nothing and does nothing. A call
  that finds the transport connected, with its command, sets \<^verbatim>\<open>cmd\<close>, \<^verbatim>\<open>stdout\<close> and
  \<^verbatim>\<open>stderr\<close> to nil. A call that finds the transport not connected, or without a command,
  returns at its guard and leaves every field as it was.
\<close>

theorem Disconnect_twice:
  "fst (Disconnect i1 g1 t) = None \<and>
   \<not> IsConnected (snd (snd (Disconnect i1 g1 t))) \<and>
   Disconnect i2 g2 (snd (snd (Disconnect i1 g1 t))) = (None, [], snd (snd (Disconnect i1 g1 t))) \<and>
   (connected t \<and> cmd t \<noteq> None \<longrightarrow>
      cmd (snd (snd (Disconnect i1 g1 t))) = None \<and>
      stdout (snd (snd (Disconnect i1 g1 t))) = None \<and>
      stderr (snd (snd (Disconnect i1 g1 t))) = None \<and>
      \<not> connected (snd (snd (Disconnect i1 g1 t)))) \<and>
   (\<not> (connected t \<and> cmd t \<noteq> None) \<longrightarrow> snd (snd (Disconnect i1 g1 t)) = t)"
proof -
  let ?t1 = "snd (snd (Disconnect i1 g1 t))"
  have a: "fst (Disconnect i1 g1 t) = None" by (rule Disconnect_no_error)
  have b: "\<not> IsConnected ?t1" by (rule Disconnect_not_IsConnected)
  have "\<not> connected ?t1 \<or> cmd ?t1 = None"
    by (auto simp: Disconnect_def Let_def split: option.splits)
  then have c: "Disconnect i2 g2 ?t1 = (None, [], ?t1)"
    by (rule Disconnect_not_connected)
  have d: "cmd ?t1 = None \<and> stdout ?t1 = None \<and> stderr ?t1 = None \<and> \<not> connected ?t1"
    if "connected t \<and> cmd t \<noteq> None"
  proof -
    from that obtain c' where "cmd t = Some c'" by auto
    with that have "?t1 = t\<lparr>connected := False, cmd := None, stdout := None, stderr := None\<rparr>"
      by (simp add: Disconnect_connected)
    then show ?thesis by simp
  qed
  have e: "?t1 = t" if "\<not> (connected t \<and> cmd t \<noteq> None)"
  proof -
    from that have "\<not> connected t \<or> cmd t = None" by simp
    then show ?thesis by (simp add: Disconnect_not_connected)
  qed
  from a b c d e show ?thesis by blast
qed

theorem Disconnect_twice_witness:
  "connected boomRun \<and> cmd boomRun \<noteq> None \<and>
   fst (Disconnect True True boomRun) = None \<and>
   \<not> IsConnected (snd (snd (Disconnect True True boomRun))) \<and>
   cmd (snd (snd (Disconnect True True boomRun))) = None \<and>
   stdout (snd (snd (Disconnect True True boomRun))) = None \<and>
   stderr (snd (snd (Disconnect True True boomRun))) = None \<and>
   Disconnect True True (snd (snd (Disconnect True True boomRun)))
     = (None, [], snd (snd (Disconnect True True boomRun))) \<and>
   \<not> (connected failedStart \<and> cmd failedStart \<noteq> None) \<and>
   snd (snd (Disconnect True True failedStart)) = failedStart"
proof -
  have a: "connected boomRun \<and> cmd boomRun \<noteq> None" by (simp add: boomRun_eval)
  have b: "\<not> (connected failedStart \<and> cmd failedStart \<noteq> None)"
    by (simp add: failedStart_eval)
  from Disconnect_twice [of True True boomRun True True]
       Disconnect_twice [of True True failedStart True True] a b
  show ?thesis by blast
qed

text \<open>
  The claim as the specification states it fails after a \<^verbatim>\<open>Connect\<close> whose \<^verbatim>\<open>Start\<close>
  failed: the transport is not connected but holds the command \<^verbatim>\<open>Connect\<close> made, and two
  calls of \<^verbatim>\<open>Disconnect\<close> leave that command in place.
\<close>

theorem Disconnect_keeps_cmd_counterexample:
  "fst (Connect failedOS idle) = Some (CLIConnectionError ''Failed to start Claude Code'') \<and>
   snd (Connect failedOS idle) = failedStart \<and>
   fst (Disconnect True True failedStart) = None \<and>
   fst (Disconnect True True (snd (snd (Disconnect True True failedStart)))) = None \<and>
   \<not> IsConnected (snd (snd (Disconnect True True (snd (snd (Disconnect True True failedStart)))))) \<and>
   cmd (snd (snd (Disconnect True True (snd (snd (Disconnect True True failedStart))))))
     = Some \<lparr>Args = [''/usr/bin/claude'', ''--output-format'', ''stream-json'', ''--verbose'',
                      ''--print'', ''hi''],
              Dir = ''/tmp'', Env = [''HOME=/root'', ''CLAUDE_CODE_ENTRYPOINT=sdk-go''],
              Process = None\<rparr>"
proof -
  have e: "fst (Connect failedOS idle) = Some (CLIConnectionError ''Failed to start Claude Code'')"
    by (simp add: failedOS_def Connect_def idle_eval boomOS_def buildCommand_def Let_def)
  have d: "Disconnect True True failedStart = (None, [], failedStart)"
    by (simp add: Disconnect_def failedStart_eval)
  show ?thesis
    using e by (simp add: d IsConnected_def) (simp add: failedStart_eval failedStart_def [symmetric])
qed

section \<open>The scanner and the size limit\<close>

lemma TrimLeftSpace_length: "length (TrimLeftSpace s) \<le> length s"
proof (induction s rule: TrimLeftSpace.induct)
  case (1 s)
  show ?case
  proof (cases "leadingSpace s = 0")
    case True
    then show ?thesis by (simp add: TrimLeftSpace.simps)
  next
    case False
    then have "TrimLeftSpace s = TrimLeftSpace (drop (leadingSpace s) s)"
      by (subst TrimLeftSpace.simps) simp
    moreover have "length (TrimLeftSpace (drop (leadingSpace s) s)) \<le> length (drop (leadingSpace s) s)"
      using False by (rule "1.IH")
    ultimately show ?thesis by simp
  qed
qed

lemma TrimRightSpace_length: "length (TrimRightSpace s) \<le> length s"
proof (induction s rule: TrimRightSpace.induct)
  case (1 s)
  show ?case
  proof (cases "trailingSpace s = 0")
    case True
    then show ?thesis by (simp add: TrimRightSpace.simps)
  next
    case False
    then have "TrimRightSpace s = TrimRightSpace (take (length s - trailingSpace s) s)"
      by (subst TrimRightSpace.simps) simp
    moreover have "length (TrimRightSpace (take (length s - trailingSpace s) s)) \<le> length (take (length s - trailingSpace s) s)"
      using False by (rule "1.IH")
    ultimately show ?thesis by simp
  qed
qed

lemma TrimSpace_length: "length (TrimSpace s) \<le> length s"
  unfolding TrimSpace_def
  using TrimRightSpace_length [of "TrimLeftSpace s"] TrimLeftSpace_length [of s] by simp




lemma splitLines_single:
  assumes "CHR 0x0A \<notin> set xs"
  shows "splitLines cur (xs @ CHR 0x0A # rest) = (rev cur @ xs) # splitLines [] rest"
  using assms by (induction xs arbitrary: cur) auto

lemma Scanner_too_long:
  assumes "CHR 0x0A \<notin> set xs" and "mx \<le> length xs"
  shows "Scanner mx \<lparr>written = xs @ CHR 0x0A # rest, failure = f\<rparr> = ([], Some ErrTooLong)"
  using assms splitLines_single [of xs "[]" rest] by (simp add: Scanner_def)

lemma processStdout_too_long:
  assumes "CHR 0x0A \<notin> set xs" and "MaxJSONSize \<le> length xs"
  shows "processStdout ctx unmarshal \<lparr>written = xs @ CHR 0x0A # rest, failure = f\<rparr>
     = ([ErrSend (CLIConnectionError ''Error reading stdout'')], Some ErrTooLong)"
  using Scanner_too_long [OF assms] by (simp add: processStdout_def)

text \<open>
  Claim C2. The scanner of \<^verbatim>\<open>processStdout\<close> has \<^const>\<open>MaxJSONSize\<close> as the size of its
  buffer, so it never yields a line longer than that (\<open>Scanner_token_length\<close>) and the
  test of \<^verbatim>\<open>processLine\<close> that sends the decode error \<^verbatim>\<open>[JSON too large]\<close> is never
  true there. On a line of \<^const>\<open>MaxJSONSize\<close> + 1 bytes the scanner stops with
  \<^verbatim>\<open>ErrTooLong\<close>, and the one error sent is the connection error \<^verbatim>\<open>Error reading stdout\<close>,
  not a decode error. No further line is read.
\<close>

theorem oversized_line_read_error:
  "processStdout ctx unmarshal oversized
     = ([ErrSend (CLIConnectionError ''Error reading stdout'')], Some ErrTooLong) \<and>
   written oversized = replicate (MaxJSONSize + 1) (CHR ''a'') @ [CHR 0x0A] \<and>
   \<not> isCLIJSONDecodeError (CLIConnectionError ''Error reading stdout'')"
proof -
  have "processStdout ctx unmarshal
          \<lparr>written = replicate (MaxJSONSize + 1) (CHR ''a'') @ CHR 0x0A # [], failure = None\<rparr>
        = ([ErrSend (CLIConnectionError ''Error reading stdout'')], Some ErrTooLong)"
    by (rule processStdout_too_long) simp_all
  then show ?thesis by (simp add: oversized_def)
qed

section \<open>Decoding the lines of stdout\<close>


lemma processLine_skipped:
  assumes "\<not> MaxJSONSize < length line" and "unmarshal line = Inl err"
    and "\<not> HasPrefix line ''{''" and "\<not> HasPrefix line ''[''"
  shows "processLine ctx unmarshal line = ([], None, ctx)"
  using assms by (simp add: processLine_def)



lemma stdoutLoop_skips_noise:
  assumes "\<not> fst (observe ctx)" and "length tok < MaxJSONSize"
    and "unmarshal (TrimSpace tok) = Inl err"
    and "\<not> HasPrefix (TrimSpace tok) ''{''" and "\<not> HasPrefix (TrimSpace tok) ''[''"
  shows "stdoutLoop ctx unmarshal (tok # rest) = stdoutLoop (snd (observe ctx)) unmarshal rest"
proof -
  obtain ctx1 where o: "observe ctx = (False, ctx1)"
    using assms(1) by (cases "observe ctx") auto
  have "\<not> MaxJSONSize < length (TrimSpace tok)"
    using assms(2) TrimSpace_length [of tok] by simp
  then have "processLine ctx1 unmarshal (TrimSpace tok) = ([], None, ctx1)"
    using assms(3,4,5) by (rule processLine_skipped)
  then show ?thesis using o by (cases "stdoutLoop ctx1 unmarshal rest") (simp add: Let_def)
qed















section \<open>Error sends\<close>






lemma sentErrors_trace:
  "sentErrors (map MsgSend ms @ map ErrSend errs @ [CloseMsg, CloseErr]) = errs"
proof -
  have a: "sentErrors (map MsgSend ms @ es) = sentErrors es" for es :: "'a event list"
    by (induction ms) simp_all
  have b: "sentErrors (map ErrSend errs @ es) = errs @ sentErrors es" for es :: "'a event list"
    by (induction errs) simp_all
  show ?thesis by (simp add: a b)
qed









lemma Connect_failed_not_connected:
  "Connect os t = (Some e, t1) \<Longrightarrow> \<not> connected t \<Longrightarrow> \<not> connected t1"
  by (auto simp: Connect_def Let_def split: if_splits sum.splits option.splits)

lemma ProcessQuery_disconnects:
  "\<not> IsConnected (snd (snd (snd (ProcessQuery os found wd interrupted graceful conv p opts rs))))"
proof -
  let ?t = "NewSubprocessCLITransport p opts [] found wd"
  obtain ce trans1 where c: "Connect os ?t = (ce, trans1)" by (cases "Connect os ?t")
  have n: "\<not> connected ?t" by (simp add: NewSubprocessCLITransport_def)
  show ?thesis
  proof (cases ce)
    case (Some e)
    with c n have "\<not> connected trans1" using Connect_failed_not_connected by blast
    with c Some show ?thesis
      by (simp add: ProcessQuery_def ProcessQuery_goroutine_def Let_def IsConnected_def)
  next
    case None
    with c show ?thesis
      by (simp add: ProcessQuery_def ProcessQuery_goroutine_def Let_def Disconnect_not_IsConnected
          split: prod.splits)
  qed
qed






end
